theory Spec2Isabelle
  imports Complex_Main "HOL-Library.Multiset"
begin

section \<open>The MNIST training script \<^verbatim>\<open>scripts/train.py\<close>\<close>

text \<open>
  The script is orchestration code around three external libraries: a numeric framework
  (tensors, the network, the loss, the Adam optimiser, the data loader), a hyperparameter
  search driver and a metrics service. The orchestration is embedded function by function;
  the libraries are parameters:
  \<^item> the numeric framework is a record of functions (\<open>framework\<close>), polymorphic in the
    types of the network parameters \<open>'p\<close>, one input example \<open>'x\<close>, one output row \<open>'o\<close>,
    a gradient \<open>'g\<close>, the optimiser's moment estimates \<open>'s\<close> and the state of the global
    random generator \<open>'r\<close>;
  \<^item> the search driver's trial object is a record of its two sampling functions;
  \<^item> what the script prints, sends to the metrics service or saves is the list of
    events a function returns, oldest first.
  A floating-point number is the real number it denotes. The floating-point operations
  the script has executed (the reductions of the loss, and the addition and the division
  by which the evaluation accumulates and averages the loss) are functions of the
  framework as well, so that they may round. Every exception the orchestration can raise
  is a value of \<open>error\<close>; a function that raises returns \<open>Inl\<close> of it.
\<close>

subsection \<open>Errors, settings and framework\<close>

datatype error = ValueError | ZeroDivisionError | UnboundLocalError | RuntimeError

text \<open>The namespace \<open>parser.parse_args()\<close> returns (lines 22 to 86).\<close>

record Namespace =
  batch_size :: int
  test_batch_size :: int
  epochs :: int
  lr :: real
  gamma :: real
  no_cuda :: bool
  dry_run :: bool
  seed :: int
  log_interval :: int
  save_model :: bool

datatype device = cuda | cpu

datatype reduction = Mean | Sum

text \<open>
  The functions of the numeric framework the script calls.
  \<open>forward p training r data\<close> is \<open>model(data)\<close> on a batch: one output row per input,
  in training mode or not, possibly consuming randomness (dropout).
  \<open>nll o y\<close> is the negative log-likelihood of label \<open>y\<close> under the row \<open>o\<close>;
  \<open>reduce red ls\<close> is the reduction of the losses \<open>ls\<close> of a batch to one number, their
  sum or their mean as single-precision arithmetic yields it;
  \<open>argmax o\<close> is the index of the largest entry of the row.
  \<open>backward p r data target\<close> is the gradient \<open>loss.backward()\<close> leaves on the parameters
  after \<open>zero_grad\<close>, for the batch and the random state of the forward pass.
  \<open>adam_update lr k s p g\<close> is one Adam update with learning rate \<open>lr\<close>, at step count
  \<open>k\<close>, from moment estimates \<open>s\<close>.
  \<open>randperm n r\<close> is the order in which a shuffling loader visits \<open>n\<close> examples.
  \<open>Net r\<close> builds a freshly initialised network.
  \<open>float_add\<close> and \<open>float_div\<close> are the addition and the division of the interpreter's
  double-precision numbers.
\<close>

record ('p, 'x, 'o, 'g, 's, 'r) framework =
  manual_seed :: "int \<Rightarrow> 'r"
  Net :: "'r \<Rightarrow> 'p \<times> 'r"
  forward :: "'p \<Rightarrow> bool \<Rightarrow> 'r \<Rightarrow> 'x list \<Rightarrow> 'o list \<times> 'r"
  nll :: "'o \<Rightarrow> int \<Rightarrow> real"
  reduce :: "reduction \<Rightarrow> real list \<Rightarrow> real"
  argmax :: "'o \<Rightarrow> int"
  backward :: "'p \<Rightarrow> 'r \<Rightarrow> 'x list \<Rightarrow> int list \<Rightarrow> 'g"
  adam_init :: "'p \<Rightarrow> 's"
  adam_update :: "real \<Rightarrow> nat \<Rightarrow> 's \<Rightarrow> 'p \<Rightarrow> 'g \<Rightarrow> 'p \<times> 's"
  randperm :: "nat \<Rightarrow> 'r \<Rightarrow> nat list \<times> 'r"
  float_add :: "real \<Rightarrow> real \<Rightarrow> real"
  float_div :: "real \<Rightarrow> real \<Rightarrow> real"

text \<open>What the process is started with: the parsed command line, whether an accelerator
  is present, and the two MNIST datasets (after the transform).\<close>

record 'x env =
  argv :: Namespace
  cuda_is_available :: bool
  mnist_train :: "('x \<times> int) list"
  mnist_test :: "('x \<times> int) list"

subsection \<open>Data loader\<close>

record 'x DataLoader =
  dataset :: "('x \<times> int) list"
  loader_batch_size :: int
  num_workers :: nat
  pin_memory :: bool
  shuffle :: bool

text \<open>The constructor refuses a batch size that is not positive, and a shuffling loader
  over no data (its sampler needs a positive number of samples).\<close>

definition DataLoader :: "('x \<times> int) list \<Rightarrow> int \<Rightarrow> nat \<Rightarrow> bool \<Rightarrow> bool \<Rightarrow> error + 'x DataLoader" where
  "DataLoader ds bs nw pm sh =
     (if bs \<le> 0 \<or> (sh \<and> ds = []) then Inl ValueError
      else Inr \<lparr>dataset = ds, loader_batch_size = bs, num_workers = nw, pin_memory = pm,
                shuffle = sh\<rparr>)"

text \<open>Consecutive batches of \<open>n\<close> examples; the last one may be shorter
  (\<open>drop_last\<close> is off).\<close>

function chunks :: "nat \<Rightarrow> 'a list \<Rightarrow> 'a list list" where
  "chunks n xs = (if n = 0 \<or> xs = [] then [] else take n xs # chunks n (drop n xs))"
  by pat_completeness auto
termination
  by (relation "measure (\<lambda>(n, xs). length xs)") auto

declare chunks.simps [simp del]

text \<open>\<open>len(loader)\<close>: the number of batches, rounded up.\<close>

definition DataLoader_len :: "'x DataLoader \<Rightarrow> nat" where
  "DataLoader_len dl =
     (length (dataset dl) + nat (loader_batch_size dl) - 1) div nat (loader_batch_size dl)"

text \<open>One iteration over the loader: the batches \<open>(data, target)\<close> in order. A shuffling
  loader draws the order from the random generator.\<close>

definition DataLoader_iter ::
  "('p, 'x, 'o, 'g, 's, 'r) framework \<Rightarrow> 'x DataLoader \<Rightarrow> 'r \<Rightarrow> ('x list \<times> int list) list \<times> 'r" where
  "DataLoader_iter fw dl r =
     (case (if shuffle dl
            then (case randperm fw (length (dataset dl)) r of
                    (perm, r') \<Rightarrow> (map (\<lambda>i. dataset dl ! i) perm, r'))
            else (dataset dl, r)) of
        (examples, r') \<Rightarrow>
          (map (\<lambda>c. (map fst c, map snd c)) (chunks (nat (loader_batch_size dl)) examples), r'))"

subsection \<open>Loss, optimiser and schedule\<close>

text \<open>\<open>F.nll_loss(output, target, reduction=...)\<close>: the per-example losses, reduced to
  their sum or their mean. The framework refuses an output whose batch size is not the
  target's.\<close>

definition nll_loss ::
  "('p, 'x, 'o, 'g, 's, 'r) framework \<Rightarrow> reduction \<Rightarrow> 'o list \<Rightarrow> int list \<Rightarrow> error + real" where
  "nll_loss fw red output target =
     (if length output \<noteq> length target then Inl ValueError
      else Inr (reduce fw red (map2 (nll fw) output target)))"

text \<open>\<open>pred.eq(target.view_as(pred)).sum().item()\<close> for \<open>pred = output.argmax(dim=1)\<close>.\<close>

definition count_correct ::
  "('p, 'x, 'o, 'g, 's, 'r) framework \<Rightarrow> 'o list \<Rightarrow> int list \<Rightarrow> int" where
  "count_correct fw output target =
     int (length (filter (\<lambda>(pred, y). pred = y) (zip (map (argmax fw) output) target)))"

text \<open>The Adam optimiser: the learning rate of its parameter group, its moment
  estimates and its step counter. The constructor refuses a negative learning rate.\<close>

record 's Adam =
  group_lr :: real
  moments :: 's
  steps :: nat

definition Adam :: "('p, 'x, 'o, 'g, 's, 'r) framework \<Rightarrow> 'p \<Rightarrow> real \<Rightarrow> error + 's Adam" where
  "Adam fw params l =
     (if l < 0 then Inl ValueError
      else Inr \<lparr>group_lr = l, moments = adam_init fw params, steps = 0\<rparr>)"

text \<open>\<open>optimizer.step()\<close>: updates the parameters the optimiser was built on, with the
  learning rate the optimiser holds.\<close>

definition Adam_step ::
  "('p, 'x, 'o, 'g, 's, 'r) framework \<Rightarrow> 's Adam \<Rightarrow> 'p \<Rightarrow> 'g \<Rightarrow> 'p \<times> 's Adam" where
  "Adam_step fw opt params g =
     (case adam_update fw (group_lr opt) (Suc (steps opt)) (moments opt) params g of
        (params', s') \<Rightarrow> (params', opt\<lparr>moments := s', steps := Suc (steps opt)\<rparr>))"

text \<open>\<open>StepLR(optimizer, step_size, gamma)\<close>; \<open>scheduler.step()\<close> multiplies the learning
  rate of the optimiser it was built on by \<open>gamma\<close> every \<open>step_size\<close> calls. The script
  builds every schedule with step size 1 (a step size of 0, which the framework would
  reject, does not occur).\<close>

record StepLR =
  step_size :: nat
  sched_gamma :: real
  last_epoch :: nat

definition StepLR :: "nat \<Rightarrow> real \<Rightarrow> StepLR" where
  "StepLR k g = \<lparr>step_size = k, sched_gamma = g, last_epoch = 0\<rparr>"

definition StepLR_step :: "StepLR \<Rightarrow> 's Adam \<Rightarrow> StepLR \<times> 's Adam" where
  "StepLR_step sch opt =
     (let e = Suc (last_epoch sch)
      in (sch\<lparr>last_epoch := e\<rparr>,
          if e mod step_size sch \<noteq> 0 then opt
          else opt\<lparr>group_lr := group_lr opt * sched_gamma sch\<rparr>))"

subsection \<open>Output\<close>

text \<open>
  What the script emits. A status line of the training loop is kept as its epoch number,
  its progress field (the text the format \<^verbatim>\<open>{}/{} ({:.0f}%)\<close> produces) and the loss;
  the summary line of the evaluation as the mean loss, the two counts and the percentage
  text. The digits of the floating-point losses are not modelled.
\<close>

datatype 'p event =
    Wandb_init real int
  | Wandb_log string real
  | Print_train int string real
  | Print_test real int nat string
  | Torch_save string 'p

text \<open>\<open>str(n)\<close> for a natural number.\<close>

fun str_nat :: "nat \<Rightarrow> string" where
  "str_nat n =
     (if n < 10 then [''0123456789'' ! n]
      else str_nat (n div 10) @ [''0123456789'' ! (n mod 10)])"

declare str_nat.simps [simp del]

text \<open>
  The format \<^verbatim>\<open>{:.0f}\<close> applied to the quotient \<open>num / den\<close> of two natural numbers:
  the nearest integer, a tie going to the even one. (The script computes the quotient in
  double precision; for quotients up to 100 and denominators below \<open>2 ^ 46\<close> the rounded
  quotient is on the same side of every tie as the exact one.)
\<close>

definition fmt_0f :: "nat \<Rightarrow> nat \<Rightarrow> string" where
  "fmt_0f num den =
     (let q = num div den; r = num mod den
      in str_nat (if 2 * r < den then q
                  else if den < 2 * r then q + 1
                  else if even q then q else q + 1))"

text \<open>The progress field of a training status line: \<open>batch_idx * len(data)\<close>, the size
  of the dataset, and \<open>100.0 * batch_idx / len(loader)\<close>.\<close>

definition progress :: "nat \<Rightarrow> nat \<Rightarrow> nat \<Rightarrow> nat \<Rightarrow> string" where
  "progress batch_idx len_data len_dataset len_loader =
     str_nat (batch_idx * len_data) @ ''/'' @ str_nat len_dataset @ '' ('' @
     fmt_0f (100 * batch_idx) len_loader @ ''%)''"

subsection \<open>The class \<open>Train\<close>\<close>

record 'p Module =
  parameters :: 'p
  training :: bool

record ('p, 'x, 's) Train =
  args :: Namespace
  device :: device
  train_loader :: "'x DataLoader"
  test_loader :: "'x DataLoader"
  model :: "'p Module"
  optimizer :: "'s Adam"
  scheduler :: StepLR

text \<open>
  \<open>Train.__init__\<close> (lines 15 to 129). The random generator is seeded from the settings
  before anything random is built (the framework refuses a seed outside the range from
  \<open>- 2 ^ 63\<close> to \<open>2 ^ 64 - 1\<close>); the loaders shuffle only on the accelerator; the
  optimiser is built with the learning rate of the settings. The first argument \<open>r\<close> is
  the state of the random generator before the call.
\<close>

definition Train_init ::
  "('p, 'x, 'o, 'g, 's, 'r) framework \<Rightarrow> 'x env \<Rightarrow> 'r \<Rightarrow>
     error + (('p, 'x, 's) Train \<times> 'r \<times> 'p event list)" where
  "Train_init fw e r =
     (let a = argv e;
          use_cuda = (\<not> no_cuda a \<and> cuda_is_available e);
          r1 = manual_seed fw (seed a);
          dev = (if use_cuda then cuda else cpu);
          out = [Wandb_init (lr a) (epochs a)]
      in if seed a < - (2 ^ 63) \<or> 2 ^ 64 - 1 < seed a then Inl RuntimeError
         else
         case DataLoader (mnist_train e) (batch_size a) (if use_cuda then 1 else 0) use_cuda use_cuda of
           Inl err \<Rightarrow> Inl err
         | Inr trl \<Rightarrow>
       (case DataLoader (mnist_test e) (test_batch_size a) (if use_cuda then 1 else 0) use_cuda use_cuda of
           Inl err \<Rightarrow> Inl err
         | Inr tel \<Rightarrow>
       (case Net fw r1 of (p, r2) \<Rightarrow>
       (case Adam fw p (lr a) of
           Inl err \<Rightarrow> Inl err
         | Inr opt \<Rightarrow>
             Inr (\<lparr>args = a, device = dev, train_loader = trl, test_loader = tel,
                   model = \<lparr>parameters = p, training = True\<rparr>,
                   optimizer = opt, scheduler = StepLR 1 (gamma a)\<rparr>, r2, out)))))"

text \<open>
  The loop of \<open>Train.train\<close> (lines 142 to 161), from batch number \<open>batch_idx\<close> on:
  forward pass, mean loss, gradient, one step of \<open>self.optimizer\<close>; then, on the batches
  whose number is a multiple of the log interval, the two log entries, and the \<open>break\<close>
  of a dry run.
\<close>

fun train_loop ::
  "('p, 'x, 'o, 'g, 's, 'r) framework \<Rightarrow> int \<Rightarrow> nat \<Rightarrow> ('x list \<times> int list) list \<Rightarrow>
     ('p, 'x, 's) Train \<times> 'r \<times> 'p event list \<Rightarrow>
     error + (('p, 'x, 's) Train \<times> 'r \<times> 'p event list)" where
  "train_loop fw epoch batch_idx [] (self, r, out) = Inr (self, r, out)"
| "train_loop fw epoch batch_idx ((data, target) # rest) (self, r, out) =
     (case forward fw (parameters (model self)) (training (model self)) r data of
        (output, r') \<Rightarrow>
     (case nll_loss fw Mean output target of
        Inl err \<Rightarrow> Inl err
      | Inr loss \<Rightarrow>
     (case Adam_step fw (optimizer self) (parameters (model self))
             (backward fw (parameters (model self)) r data target) of
        (p', opt') \<Rightarrow>
          (let self' = self\<lparr>model := (model self)\<lparr>parameters := p'\<rparr>, optimizer := opt'\<rparr>
           in if log_interval (args self) = 0 then Inl ZeroDivisionError
              else if int batch_idx mod log_interval (args self) = 0
              then (let out' = out @
                          [Wandb_log ''training_loss'' loss,
                           Print_train epoch
                             (progress batch_idx (length data)
                                (length (dataset (train_loader self)))
                                (DataLoader_len (train_loader self)))
                             loss]
                    in if dry_run (args self) then Inr (self', r', out')
                       else train_loop fw epoch (Suc batch_idx) rest (self', r', out'))
              else train_loop fw epoch (Suc batch_idx) rest (self', r', out)))))"

text \<open>\<open>Train.train(epoch)\<close>: the network is put in training mode, then the loop runs over
  one iteration of the training loader.\<close>

definition train ::
  "('p, 'x, 'o, 'g, 's, 'r) framework \<Rightarrow> ('p, 'x, 's) Train \<Rightarrow> int \<Rightarrow> 'r \<Rightarrow>
     error + (('p, 'x, 's) Train \<times> 'r \<times> 'p event list)" where
  "train fw self epoch r =
     (case DataLoader_iter fw (train_loader self) r of
        (batches, r1) \<Rightarrow>
          train_loop fw epoch 0 batches
            (self\<lparr>model := (model self)\<lparr>training := True\<rparr>\<rparr>, r1, []))"

text \<open>
  The loop of \<open>Train.test\<close> (lines 175 to 185), which runs without gradient tracking:
  forward pass, summed loss of the batch added to \<open>test_loss\<close> (a double-precision
  addition), number of right predictions added to \<open>correct\<close>. Nothing of \<open>self\<close> is
  written.
\<close>

fun test_loop ::
  "('p, 'x, 'o, 'g, 's, 'r) framework \<Rightarrow> ('p, 'x, 's) Train \<Rightarrow> ('x list \<times> int list) list \<Rightarrow>
     real \<times> int \<times> 'r \<Rightarrow> error + (real \<times> int \<times> 'r)" where
  "test_loop fw self [] (test_loss, correct, r) = Inr (test_loss, correct, r)"
| "test_loop fw self ((data, target) # rest) (test_loss, correct, r) =
     (case forward fw (parameters (model self)) (training (model self)) r data of
        (output, r') \<Rightarrow>
     (case nll_loss fw Sum output target of
        Inl err \<Rightarrow> Inl err
      | Inr l \<Rightarrow>
          test_loop fw self rest
            (float_add fw test_loss l, correct + count_correct fw output target, r')))"

text \<open>
  \<open>Train.test()\<close> (lines 170 to 199): evaluation mode, the loop, then the two divisions
  by the size of the test dataset. Python raises \<open>ZeroDivisionError\<close> at the first of
  them (line 187) when the dataset is empty. The first divides a double-precision number;
  the second is the quotient of two integers, which the interpreter rounds to the nearest
  double and the model keeps as it is.
\<close>

definition test ::
  "('p, 'x, 'o, 'g, 's, 'r) framework \<Rightarrow> ('p, 'x, 's) Train \<Rightarrow> 'r \<Rightarrow>
     error + (real \<times> ('p, 'x, 's) Train \<times> 'r \<times> 'p event list)" where
  "test fw self r =
     (let self' = self\<lparr>model := (model self)\<lparr>training := False\<rparr>\<rparr>;
          n = length (dataset (test_loader self))
      in case DataLoader_iter fw (test_loader self) r of
           (batches, r1) \<Rightarrow>
        (case test_loop fw self' batches (0, 0, r1) of
           Inl err \<Rightarrow> Inl err
         | Inr (test_loss, correct, r2) \<Rightarrow>
             if n = 0 then Inl ZeroDivisionError
             else Inr (real_of_int correct / real n, self', r2,
                       [Wandb_log ''test_loss'' (float_div fw test_loss (real n)),
                        Print_test (float_div fw test_loss (real n)) correct n
                          (fmt_0f (100 * nat correct) n)])))"

subsection \<open>The objective of the hyperparameter search\<close>

text \<open>The trial object the search driver hands to \<open>objective\<close>: its two sampling
  functions, as the values they return for a name, a range and the log-scale flag.\<close>

record trial =
  suggest_float :: "string \<Rightarrow> real \<Rightarrow> real \<Rightarrow> bool \<Rightarrow> real"
  suggest_int :: "string \<Rightarrow> int \<Rightarrow> int \<Rightarrow> int"

text \<open>
  Lines 212 to 218: the \<open>Train\<close> object, the two sampled values, and a second optimiser
  and schedule built on the same parameters with the sampled learning rate. The result is
  the local variables \<open>(t, optimizer, scheduler, accuracy)\<close> with the random state and
  the output so far, and \<open>epochs\<close>; \<open>accuracy\<close> is not bound yet.
\<close>

definition objective_setup ::
  "('p, 'x, 'o, 'g, 's, 'r) framework \<Rightarrow> 'x env \<Rightarrow> trial \<Rightarrow> 'r \<Rightarrow>
     error + ((('p, 'x, 's) Train \<times> 's Adam \<times> StepLR \<times> real option \<times> 'r \<times> 'p event list) \<times> int)" where
  "objective_setup fw e tr r =
     (case Train_init fw e r of
        Inl err \<Rightarrow> Inl err
      | Inr (t, r1, out) \<Rightarrow>
          (let l = suggest_float tr ''lr'' (1 / 100000) (1 / 10) True;
               n = suggest_int tr ''epochs'' 1 1
           in case Adam fw (parameters (model t)) l of
                Inl err \<Rightarrow> Inl err
              | Inr opt \<Rightarrow> Inr ((t, opt, StepLR 1 (gamma (args t)), None, r1, out), n)))"

text \<open>
  The loop of lines 219 to 222 over the epoch numbers still to run: \<open>t.train(epoch)\<close>,
  \<open>accuracy = t.test()\<close>, then a step of the local schedule, which acts on the local
  optimiser.
\<close>

fun objective_loop ::
  "('p, 'x, 'o, 'g, 's, 'r) framework \<Rightarrow> nat list \<Rightarrow>
     ('p, 'x, 's) Train \<times> 's Adam \<times> StepLR \<times> real option \<times> 'r \<times> 'p event list \<Rightarrow>
     error + (('p, 'x, 's) Train \<times> 's Adam \<times> StepLR \<times> real option \<times> 'r \<times> 'p event list)" where
  "objective_loop fw [] locals = Inr locals"
| "objective_loop fw (epoch # rest) (t, opt, sch, accuracy, r, out) =
     (case train fw t (int epoch) r of
        Inl err \<Rightarrow> Inl err
      | Inr (t1, r1, out1) \<Rightarrow>
     (case test fw t1 r1 of
        Inl err \<Rightarrow> Inl err
      | Inr (acc, t2, r2, out2) \<Rightarrow>
     (case StepLR_step sch opt of
        (sch', opt') \<Rightarrow>
          objective_loop fw rest (t2, opt', sch', Some acc, r2, out @ out1 @ out2))))"

text \<open>
  \<open>objective(trial)\<close>: the setup, the loop over \<open>range(epochs)\<close>, the optional save, and
  the return of \<open>accuracy\<close>, which Python finds unbound when the loop body never ran.
\<close>

definition objective ::
  "('p, 'x, 'o, 'g, 's, 'r) framework \<Rightarrow> 'x env \<Rightarrow> trial \<Rightarrow> 'r \<Rightarrow>
     error + (real \<times> 'r \<times> 'p event list)" where
  "objective fw e tr r =
     (case objective_setup fw e tr r of
        Inl err \<Rightarrow> Inl err
      | Inr (locals, n) \<Rightarrow>
     (case objective_loop fw [0..<nat n] locals of
        Inl err \<Rightarrow> Inl err
      | Inr (t, opt, sch, accuracy, r', out) \<Rightarrow>
          (let out' = (if save_model (args t)
                       then out @ [Torch_save ''mnist_cnn.pt'' (parameters (model t))]
                       else out)
           in case accuracy of
                None \<Rightarrow> Inl UnboundLocalError
              | Some acc \<Rightarrow> Inr (acc, r', out'))))"

text \<open>The local variables of \<open>objective\<close> when the loop is left (after line 222), the
  local optimiser and schedule among them, or the exception raised until then.\<close>

definition objective_locals ::
  "('p, 'x, 'o, 'g, 's, 'r) framework \<Rightarrow> 'x env \<Rightarrow> trial \<Rightarrow> 'r \<Rightarrow>
     error + (('p, 'x, 's) Train \<times> 's Adam \<times> StepLR \<times> real option \<times> 'r \<times> 'p event list)" where
  "objective_locals fw e tr r =
     (case objective_setup fw e tr r of
        Inl err \<Rightarrow> Inl err
      | Inr (locals, n) \<Rightarrow> objective_loop fw [0..<nat n] locals)"

subsection \<open>A small framework and a small run\<close>

text \<open>
  A framework to run the script on: the parameters are one real number, an example is an
  integer, the network predicts the parity of the example whatever its parameters, the loss
  of a row is 0 when it is the label and 1 otherwise, every gradient is 1, the
  optimiser subtracts the learning rate times the gradient, and no operation rounds.
\<close>

definition parity :: "int \<Rightarrow> int" where
  "parity x = x mod 2"

definition toy :: "(real, int, int, real, unit, int) framework" where
  "toy = \<lparr>manual_seed = (\<lambda>s. s),
          Net = (\<lambda>r. (0, r + 1)),
          forward = (\<lambda>p tr r xs. (map parity xs, if tr then r + 1 else r)),
          nll = (\<lambda>row y. if row = y then 0 else 1),
          reduce = (\<lambda>red ls. case red of Sum \<Rightarrow> sum_list ls
                                 | Mean \<Rightarrow> sum_list ls / real (length ls)),
          argmax = (\<lambda>row. row),
          backward = (\<lambda>p r xs ys. 1),
          adam_init = (\<lambda>p. ()),
          adam_update = (\<lambda>l k s p g. (p - l * g, s)),
          randperm = (\<lambda>n r. (rev [0..<n], r + 1)),
          float_add = (\<lambda>a b. a + b),
          float_div = (\<lambda>a b. a / b)\<rparr>"

text \<open>The default settings of the script, with the batch sizes and the log interval of
  the scenario: batches of 2, every batch logged.\<close>

definition small_args :: Namespace where
  "small_args = \<lparr>batch_size = 2, test_batch_size = 3, epochs = 1, lr = 2 / 1000,
                 gamma = 7 / 10, no_cuda = False, dry_run = False, seed = 1,
                 log_interval = 1, save_model = True\<rparr>"

text \<open>Four training examples and five test examples, three of them labelled with their
  parity.\<close>

definition small_env :: "int env" where
  "small_env = \<lparr>argv = small_args, cuda_is_available = False,
                mnist_train = [(10, 0), (11, 1), (12, 0), (13, 0)],
                mnist_test = [(20, 0), (21, 1), (22, 1), (23, 1), (24, 1)]\<rparr>"

definition small_train :: "(real, int, unit) Train" where
  "small_train =
     \<lparr>args = small_args, device = cpu,
      train_loader = \<lparr>dataset = mnist_train small_env, loader_batch_size = 2,
                       num_workers = 0, pin_memory = False, shuffle = False\<rparr>,
      test_loader = \<lparr>dataset = mnist_test small_env, loader_batch_size = 3,
                      num_workers = 0, pin_memory = False, shuffle = False\<rparr>,
      model = \<lparr>parameters = 0, training = True\<rparr>,
      optimizer = \<lparr>group_lr = 2 / 1000, moments = (), steps = 0\<rparr>,
      scheduler = \<lparr>step_size = 1, sched_gamma = 7 / 10, last_epoch = 0\<rparr>\<rparr>"

text \<open>A trial whose sampler returns the given learning rate and epoch count.\<close>

definition const_trial :: "real \<Rightarrow> int \<Rightarrow> trial" where
  "const_trial l n = \<lparr>suggest_float = (\<lambda>name lo hi lg. l), suggest_int = (\<lambda>name lo hi. n)\<rparr>"

text \<open>Two trials whose samplers return the lower and the upper end of every range.\<close>

definition lo_trial :: trial where
  "lo_trial = \<lparr>suggest_float = (\<lambda>name lo hi lg. lo), suggest_int = (\<lambda>name lo hi. lo)\<rparr>"

definition hi_trial :: trial where
  "hi_trial = \<lparr>suggest_float = (\<lambda>name lo hi lg. hi), suggest_int = (\<lambda>name lo hi. hi)\<rparr>"

subsection \<open>What the libraries promise\<close>

text \<open>The network returns one output row per input of the batch.\<close>

definition shape_ok :: "('p, 'x, 'o, 'g, 's, 'r) framework \<Rightarrow> bool" where
  "shape_ok fw = (\<forall>p tr r xs. length (fst (forward fw p tr r xs)) = length xs)"

text \<open>A shuffling loader visits every example once.\<close>

definition randperm_ok :: "('p, 'x, 'o, 'g, 's, 'r) framework \<Rightarrow> bool" where
  "randperm_ok fw = (\<forall>n r. mset (fst (randperm fw n r)) = mset [0..<n])"


text \<open>The search driver samples inside the range it is asked for.\<close>

definition trial_ok :: "trial \<Rightarrow> bool" where
  "trial_ok tr =
     ((\<forall>name lo hi lg. lo \<le> hi \<longrightarrow>
          lo \<le> suggest_float tr name lo hi lg \<and> suggest_float tr name lo hi lg \<le> hi) \<and>
      (\<forall>name lo hi. lo \<le> hi \<longrightarrow>
          lo \<le> suggest_int tr name lo hi \<and> suggest_int tr name lo hi \<le> hi))"

subsection \<open>Notions the properties are stated with\<close>

text \<open>The pairs (predicted class, label) of one pass over the batches in evaluation mode,
  in the order of the pass.\<close>

fun eval_pairs ::
  "('p, 'x, 'o, 'g, 's, 'r) framework \<Rightarrow> 'p \<Rightarrow> ('x list \<times> int list) list \<Rightarrow> 'r \<Rightarrow> (int \<times> int) list" where
  "eval_pairs fw p [] r = []"
| "eval_pairs fw p ((data, target) # rest) r =
     (case forward fw p False r data of
        (output, r') \<Rightarrow> zip (map (argmax fw) output) target @ eval_pairs fw p rest r')"

text \<open>The number of examples of one evaluation pass whose predicted class is their label.\<close>

definition correct_predictions ::
  "('p, 'x, 'o, 'g, 's, 'r) framework \<Rightarrow> ('p, 'x, 's) Train \<Rightarrow> 'r \<Rightarrow> nat" where
  "correct_predictions fw self r =
     (case DataLoader_iter fw (test_loader self) r of
        (batches, r1) \<Rightarrow>
          length (filter (\<lambda>(pred, y). pred = y) (eval_pairs fw (parameters (model self)) batches r1)))"



text \<open>The progress fields of the training status lines of an output.\<close>

fun progress_fields :: "'p event list \<Rightarrow> string list" where
  "progress_fields [] = []"
| "progress_fields (Print_train epoch field loss # out) = field # progress_fields out"
| "progress_fields (ev # out) = progress_fields out"

text \<open>What one call of \<open>train\<close> emits (nothing is kept of a call that raises).\<close>

definition train_output ::
  "('p, 'x, 'o, 'g, 's, 'r) framework \<Rightarrow> ('p, 'x, 's) Train \<Rightarrow> int \<Rightarrow> 'r \<Rightarrow> 'p event list" where
  "train_output fw self epoch r =
     (case train fw self epoch r of Inl err \<Rightarrow> [] | Inr (self', r', out) \<Rightarrow> out)"




text \<open>
  The search loop as the specification words it. One iteration is a training epoch, then
  an evaluation, then one advance of the decay schedule; it yields the accuracy of its
  evaluation. \<open>spec_iterations n\<close> is the first \<open>n\<close> iterations, numbered from 0, one after
  the other. A trial of \<open>n \<ge> 1\<close> epochs runs \<open>n - 1\<close> iterations and then the last one,
  whose accuracy it returns.
\<close>

definition spec_iteration ::
  "('p, 'x, 'o, 'g, 's, 'r) framework \<Rightarrow> nat \<Rightarrow>
     ('p, 'x, 's) Train \<times> 's Adam \<times> StepLR \<times> real option \<times> 'r \<times> 'p event list \<Rightarrow>
     error + (real \<times> (('p, 'x, 's) Train \<times> 's Adam \<times> StepLR \<times> real option \<times> 'r \<times> 'p event list))" where
  "spec_iteration fw i locals =
     (case locals of (t, opt, sch, accuracy, r, out) \<Rightarrow>
        (case train fw t (int i) r of
           Inl err \<Rightarrow> Inl err
         | Inr (t1, r1, out1) \<Rightarrow>
        (case test fw t1 r1 of
           Inl err \<Rightarrow> Inl err
         | Inr (acc, t2, r2, out2) \<Rightarrow>
             Inr (acc, (t2, snd (StepLR_step sch opt), fst (StepLR_step sch opt), Some acc, r2,
                        out @ out1 @ out2)))))"

primrec spec_iterations ::
  "('p, 'x, 'o, 'g, 's, 'r) framework \<Rightarrow> nat \<Rightarrow>
     ('p, 'x, 's) Train \<times> 's Adam \<times> StepLR \<times> real option \<times> 'r \<times> 'p event list \<Rightarrow>
     error + (('p, 'x, 's) Train \<times> 's Adam \<times> StepLR \<times> real option \<times> 'r \<times> 'p event list)" where
  "spec_iterations fw 0 locals = Inr locals"
| "spec_iterations fw (Suc n) locals =
     (case spec_iterations fw n locals of
        Inl err \<Rightarrow> Inl err
      | Inr locals' \<Rightarrow>
          (case spec_iteration fw n locals' of
             Inl err \<Rightarrow> Inl err
           | Inr (acc, locals'') \<Rightarrow> Inr locals''))"

definition objective_spec ::
  "('p, 'x, 'o, 'g, 's, 'r) framework \<Rightarrow> 'x env \<Rightarrow> trial \<Rightarrow> 'r \<Rightarrow>
     error + (real \<times> 'r \<times> 'p event list)" where
  "objective_spec fw e tr r =
     (case objective_setup fw e tr r of
        Inl err \<Rightarrow> Inl err
      | Inr (locals, n) \<Rightarrow>
     (case spec_iterations fw (nat n - 1) locals of
        Inl err \<Rightarrow> Inl err
      | Inr locals' \<Rightarrow>
     (case spec_iteration fw (nat n - 1) locals' of
        Inl err \<Rightarrow> Inl err
      | Inr (acc, (t, opt, sch, accuracy, r', out)) \<Rightarrow>
          Inr (acc, r',
               if save_model (args t)
               then out @ [Torch_save ''mnist_cnn.pt'' (parameters (model t))]
               else out))))"

text \<open>The local variables after the iterations of a trial, as the specification words
  the loop: the setup, then as many iterations as epochs were sampled.\<close>

definition spec_locals ::
  "('p, 'x, 'o, 'g, 's, 'r) framework \<Rightarrow> 'x env \<Rightarrow> trial \<Rightarrow> 'r \<Rightarrow>
     error + (('p, 'x, 's) Train \<times> 's Adam \<times> StepLR \<times> real option \<times> 'r \<times> 'p event list)" where
  "spec_locals fw e tr r =
     (case objective_setup fw e tr r of
        Inl err \<Rightarrow> Inl err
      | Inr (locals, n) \<Rightarrow> spec_iterations fw (nat n) locals)"

text \<open>The examples a loader visits in one iteration, in order.\<close>

definition visited ::
  "('p, 'x, 'o, 'g, 's, 'r) framework \<Rightarrow> 'x DataLoader \<Rightarrow> 'r \<Rightarrow> ('x \<times> int) list" where
  "visited fw dl r =
     (if shuffle dl
      then map (\<lambda>i. dataset dl ! i) (fst (randperm fw (length (dataset dl)) r))
      else dataset dl)"


definition empty_train :: "(real, int, unit) Train" where
  "empty_train =
     small_train\<lparr>test_loader := \<lparr>dataset = [], loader_batch_size = 3,
                                   num_workers = 0, pin_memory = False, shuffle = False\<rparr>\<rparr>"

definition dry_train :: "(real, int, unit) Train" where
  "dry_train = small_train\<lparr>args := small_args\<lparr>dry_run := True\<rparr>\<rparr>"

text \<open>What one pass of the body of the training loop makes of the object and the random
  state on a batch whose output has the shape of the target, with the mean loss of the
  batch: the body of \<open>train_loop\<close> up to the step of the optimiser.\<close>

definition train_batch ::
  "('p, 'x, 'o, 'g, 's, 'r) framework \<Rightarrow> ('p, 'x, 's) Train \<Rightarrow> 'r \<Rightarrow> 'x list \<Rightarrow> int list \<Rightarrow>
     ('p, 'x, 's) Train \<times> 'r \<times> real" where
  "train_batch fw self r data target =
     (case forward fw (parameters (model self)) (training (model self)) r data of
        (outp, r') \<Rightarrow>
     (case Adam_step fw (optimizer self) (parameters (model self))
             (backward fw (parameters (model self)) r data target) of
        (p', opt') \<Rightarrow>
          (self\<lparr>model := (model self)\<lparr>parameters := p'\<rparr>, optimizer := opt'\<rparr>, r',
           reduce fw Mean (map2 (nll fw) outp target))))"

subsection \<open>A framework that rounds\<close>








section \<open>Properties\<close>

subsection \<open>Runs of the small framework\<close>

lemma small_test:
  "test toy small_train 2 =
     Inr (3 / 5, small_train\<lparr>model := \<lparr>parameters = 0, training = False\<rparr>\<rparr>, 2,
          [Wandb_log ''test_loss'' (2 / 5), Print_test (2 / 5) 3 5 ''60''])"
  by (simp add: test_def small_train_def small_env_def small_args_def toy_def parity_def
      DataLoader_iter_def chunks.simps nll_loss_def count_correct_def fmt_0f_def
      str_nat.simps Let_def)


subsection \<open>Evaluation\<close>

text \<open>
  Claim C7. An evaluation that returns leaves the parameters of the network as they
  were: the object it leaves differs from the one it started on in the mode flag of the
  network only, so the parameters and the optimiser are the same before and after.
\<close>

theorem test_keeps_parameters:
  assumes "test fw self r = Inr (acc, self', r', out)"
  shows "self' = self\<lparr>model := (model self)\<lparr>training := False\<rparr>\<rparr> \<and>
         parameters (model self') = parameters (model self) \<and>
         optimizer self' = optimizer self"
  using assms
  by (auto simp: test_def Let_def split: prod.splits sum.splits if_splits)

theorem test_keeps_parameters_witness:
  "test toy small_train 2 =
     Inr (3 / 5, small_train\<lparr>model := \<lparr>parameters = 0, training = False\<rparr>\<rparr>, 2,
          [Wandb_log ''test_loss'' (2 / 5), Print_test (2 / 5) 3 5 ''60'']) \<and>
   parameters (model (small_train\<lparr>model := \<lparr>parameters = 0, training = False\<rparr>\<rparr>)) =
     parameters (model small_train)"
  using test_keeps_parameters [OF small_test] small_test by simp

subsection \<open>Batches\<close>

lemma chunks_Nil [simp]: "chunks n [] = []"
  by (simp add: chunks.simps)

lemma concat_chunks: "0 < n \<Longrightarrow> concat (chunks n xs) = xs"
proof (induction n xs rule: chunks.induct)
  case (1 n xs)
  show ?case
  proof (cases "xs = []")
    case True
    then show ?thesis by simp
  next
    case False
    with 1 have "concat (chunks n (drop n xs)) = drop n xs" by simp
    with False 1(2) show ?thesis by (subst chunks.simps) simp
  qed
qed

lemma length_concat_chunks: "length (concat (chunks n xs)) \<le> length xs"
proof (cases "n = 0")
  case True
  then show ?thesis by (subst chunks.simps) simp
next
  case False
  then show ?thesis by (simp add: concat_chunks)
qed

lemma chunks_nonempty: "0 < n \<Longrightarrow> xs \<noteq> [] \<Longrightarrow> chunks n xs = take n xs # chunks n (drop n xs)"
  by (subst chunks.simps) simp

lemma DataLoader_iter_visited:
  "fst (DataLoader_iter fw dl r) =
     map (\<lambda>c. (map fst c, map snd c)) (chunks (nat (loader_batch_size dl)) (visited fw dl r))"
  by (simp add: DataLoader_iter_def visited_def split: prod.splits)

lemma mset_visited:
  assumes "randperm_ok fw"
  shows "mset (visited fw dl r) = mset (dataset dl)"
proof (cases "shuffle dl")
  case True
  define perm where "perm = fst (randperm fw (length (dataset dl)) r)"
  have perm: "mset perm = mset [0..<length (dataset dl)]"
    using assms unfolding randperm_ok_def perm_def by blast
  have "mset (map (\<lambda>i. dataset dl ! i) perm) = image_mset (\<lambda>i. dataset dl ! i) (mset perm)"
    by (simp only: mset_map)
  also have "\<dots> = mset (map (\<lambda>i. dataset dl ! i) [0..<length (dataset dl)])"
    by (simp only: perm mset_map)
  also have "\<dots> = mset (dataset dl)"
    by (simp only: map_nth)
  finally show ?thesis using True by (simp add: visited_def perm_def)
next
  case False
  then show ?thesis by (simp add: visited_def)
qed

lemma length_visited: "randperm_ok fw \<Longrightarrow> length (visited fw dl r) = length (dataset dl)"
  using mset_visited [of fw dl r] by (metis size_mset)

lemma length_eval_pairs:
  "length (eval_pairs fw p (map (\<lambda>c. (map fst c, map snd c)) cs) r) \<le> length (concat cs)"
proof (induction cs arbitrary: r)
  case Nil
  then show ?case by simp
next
  case (Cons c cs)
  obtain outp r1 where f: "forward fw p False r (map fst c) = (outp, r1)"
    by (cases "forward fw p False r (map fst c)")
  have "min (length outp) (length c) \<le> length c" by simp
  with Cons [of r1] f show ?case by simp
qed

lemma test_loop_correct:
  assumes "test_loop fw self batches (l, c, r) = Inr (l', c', r')" "\<not> training (model self)"
  shows "c' = c + int (length (filter (\<lambda>(pred, y). pred = y)
                   (eval_pairs fw (parameters (model self)) batches r)))"
  using assms
proof (induction batches arbitrary: l c r)
  case Nil
  then show ?case by simp
next
  case (Cons b batches)
  obtain data target where b: "b = (data, target)" by (cases b)
  obtain outp r1 where f: "forward fw (parameters (model self)) False r data = (outp, r1)"
    by (cases "forward fw (parameters (model self)) False r data")
  from Cons.prems b f obtain l1 where
    l1: "nll_loss fw Sum outp target = Inr l1" and
    rest: "test_loop fw self batches (float_add fw l l1, c + count_correct fw outp target, r1) =
      Inr (l', c', r')"
    by (auto split: sum.splits)
  from Cons.IH [OF rest Cons.prems(2)] b f show ?case
    by (simp add: count_correct_def)
qed

lemma test_Inr:
  assumes "test fw self r = Inr (acc, self', r', out)"
  shows "length (dataset (test_loader self)) \<noteq> 0 \<and>
         acc = real (correct_predictions fw self r) / real (length (dataset (test_loader self)))"
proof -
  let ?self = "self\<lparr>model := (model self)\<lparr>training := False\<rparr>\<rparr>"
  obtain batches r1 where it: "DataLoader_iter fw (test_loader self) r = (batches, r1)"
    by (cases "DataLoader_iter fw (test_loader self) r")
  from assms it obtain l c r2 where
    loop: "test_loop fw ?self batches (0, 0, r1) = Inr (l, c, r2)" and
    n: "length (dataset (test_loader self)) \<noteq> 0" and
    acc: "acc = real_of_int c / real (length (dataset (test_loader self)))"
    by (auto simp: test_def Let_def split: sum.splits if_splits)
  from test_loop_correct [OF loop] have "c = int (correct_predictions fw self r)"
    by (simp add: correct_predictions_def it)
  with n acc show ?thesis by simp
qed

lemma correct_predictions_le:
  assumes "randperm_ok fw"
  shows "correct_predictions fw self r \<le> length (dataset (test_loader self))"
proof -
  let ?cs = "chunks (nat (loader_batch_size (test_loader self))) (visited fw (test_loader self) r)"
  obtain batches r1 where it: "DataLoader_iter fw (test_loader self) r = (batches, r1)"
    by (cases "DataLoader_iter fw (test_loader self) r")
  with DataLoader_iter_visited [of fw "test_loader self" r]
  have b: "batches = map (\<lambda>c. (map fst c, map snd c)) ?cs" by simp
  have "correct_predictions fw self r \<le>
        length (eval_pairs fw (parameters (model self)) (map (\<lambda>c. (map fst c, map snd c)) ?cs) r1)"
    by (simp add: correct_predictions_def it b)
  also have "\<dots> \<le> length (concat ?cs)" by (rule length_eval_pairs)
  also have "\<dots> \<le> length (visited fw (test_loader self) r)" by (rule length_concat_chunks)
  also have "\<dots> = length (dataset (test_loader self))" by (rule length_visited [OF assms])
  finally show ?thesis .
qed

lemma toy_randperm_ok: "randperm_ok toy"
  by (simp add: randperm_ok_def toy_def parity_def)

lemma toy_shape_ok: "shape_ok toy"
  by (simp add: shape_ok_def toy_def parity_def)









lemma test_loop_total:
  assumes "shape_ok fw"
  shows "\<exists>res. test_loop fw self (map (\<lambda>c. (map fst c, map snd c)) cs) (l, c, r) = Inr res"
proof (induction cs arbitrary: l c r)
  case Nil
  then show ?case by simp
next
  case (Cons b cs)
  obtain outp r1 where
    f: "forward fw (parameters (model self)) (training (model self)) r (map fst b) = (outp, r1)"
    by (cases "forward fw (parameters (model self)) (training (model self)) r (map fst b)")
  from assms have "length (fst (forward fw (parameters (model self)) (training (model self)) r (map fst b))) =
      length (map fst b)"
    unfolding shape_ok_def by blast
  with f have "length outp = length b" by simp
  then obtain l1 where "nll_loss fw Sum outp (map snd b) = Inr l1"
    by (simp add: nll_loss_def)
  with f Cons.IH show ?case by simp
qed

lemma test_total:
  assumes "shape_ok fw" "dataset (test_loader self) \<noteq> []"
  shows "\<exists>acc self' r' out. test fw self r = Inr (acc, self', r', out)"
proof -
  let ?self = "self\<lparr>model := (model self)\<lparr>training := False\<rparr>\<rparr>"
  let ?cs = "chunks (nat (loader_batch_size (test_loader self))) (visited fw (test_loader self) r)"
  obtain batches r1 where it: "DataLoader_iter fw (test_loader self) r = (batches, r1)"
    by (cases "DataLoader_iter fw (test_loader self) r")
  with DataLoader_iter_visited [of fw "test_loader self" r]
  have b: "batches = map (\<lambda>c. (map fst c, map snd c)) ?cs" by simp
  from test_loop_total [OF assms(1), of ?self ?cs 0 0 r1] obtain l c r2 where
    "test_loop fw ?self batches (0, 0, r1) = Inr (l, c, r2)"
    unfolding b by (metis prod_cases3)
  with it assms(2) show ?thesis
    by (simp add: test_def Let_def)
qed

lemma test_empty:
  assumes "randperm_ok fw" "dataset (test_loader self) = []"
  shows "test fw self r = Inl ZeroDivisionError"
proof -
  from mset_visited [OF assms(1), of "test_loader self" r] assms(2)
  have "visited fw (test_loader self) r = []" by simp
  with DataLoader_iter_visited [of fw "test_loader self" r]
  have "fst (DataLoader_iter fw (test_loader self) r) = []" by simp
  with assms(2) show ?thesis
    by (auto simp: test_def Let_def split: prod.splits)
qed

text \<open>
  Claim C3. The value an evaluation returns is the number of examples of the pass whose
  predicted class (the index of the largest entry of the output row) is their label,
  divided by the size of the test dataset, and it lies between 0 and 1. This holds for
  every network and dataset, given that a shuffling loader visits every example once.
\<close>

theorem test_accuracy:
  assumes "test fw self r = Inr (acc, self', r', out)" "randperm_ok fw"
  shows "acc = real (correct_predictions fw self r) / real (length (dataset (test_loader self))) \<and>
         0 \<le> acc \<and> acc \<le> 1"
proof -
  from test_Inr [OF assms(1)] have
    n: "length (dataset (test_loader self)) \<noteq> 0" and
    acc: "acc = real (correct_predictions fw self r) / real (length (dataset (test_loader self)))"
    by simp_all
  from correct_predictions_le [OF assms(2), of self r] n acc show ?thesis
    by (simp add: divide_le_eq_1)
qed


theorem test_accuracy_witness:
  "test toy small_train 2 =
     Inr (3 / 5, small_train\<lparr>model := \<lparr>parameters = 0, training = False\<rparr>\<rparr>, 2,
          [Wandb_log ''test_loss'' (2 / 5), Print_test (2 / 5) 3 5 ''60'']) \<and>
   randperm_ok toy \<and>
   3 / 5 = real (correct_predictions toy small_train 2) /
             real (length (dataset (test_loader small_train))) \<and>
   (0::real) \<le> 3 / 5 \<and> (3 / 5 :: real) \<le> 1"
  using test_accuracy [OF small_test toy_randperm_ok] small_test toy_randperm_ok by simp





text \<open>
  Claim C10. The evaluation divides by the size of the test dataset without a guard. On
  an empty test dataset it raises \<open>ZeroDivisionError\<close> and returns no value; on a
  non-empty one it returns an accuracy, which lies between 0 and 1. So the bound on the
  accuracy needs the dataset to be non-empty. (The framework is taken to return one output
  row per input, and a shuffling loader to visit every example once.)
\<close>

theorem test_division:
  assumes "randperm_ok fw" "shape_ok fw"
  shows "(dataset (test_loader self) = [] \<longrightarrow> test fw self r = Inl ZeroDivisionError) \<and>
         (dataset (test_loader self) \<noteq> [] \<longrightarrow>
            (\<exists>acc self' r' out. test fw self r = Inr (acc, self', r', out) \<and> 0 \<le> acc \<and> acc \<le> 1))"
proof (intro conjI impI)
  assume "dataset (test_loader self) = []"
  with assms(1) show "test fw self r = Inl ZeroDivisionError" by (rule test_empty)
next
  assume "dataset (test_loader self) \<noteq> []"
  with test_total [OF assms(2)] obtain acc self' r' out where
    t: "test fw self r = Inr (acc, self', r', out)" by blast
  from test_Inr [OF t] correct_predictions_le [OF assms(1), of self r]
  have "0 \<le> acc \<and> acc \<le> 1" by (simp add: divide_le_eq_1)
  with t show "\<exists>acc self' r' out. test fw self r = Inr (acc, self', r', out) \<and> 0 \<le> acc \<and> acc \<le> 1"
    by blast
qed

theorem test_division_witness:
  "randperm_ok toy \<and> shape_ok toy \<and>
   dataset (test_loader empty_train) = [] \<and> test toy empty_train 2 = Inl ZeroDivisionError \<and>
   dataset (test_loader small_train) \<noteq> [] \<and>
   test toy small_train 2 =
     Inr (3 / 5, small_train\<lparr>model := \<lparr>parameters = 0, training = False\<rparr>\<rparr>, 2,
          [Wandb_log ''test_loss'' (2 / 5), Print_test (2 / 5) 3 5 ''60''])"
  using test_division [OF toy_randperm_ok toy_shape_ok, of empty_train 2]
    test_division [OF toy_randperm_ok toy_shape_ok, of small_train 2]
    small_test toy_randperm_ok toy_shape_ok
  by (simp add: empty_train_def small_train_def small_env_def)

subsection \<open>Training\<close>

lemma train_batch_frame:
  assumes "train_batch fw self r data target = (self', r', loss)"
  shows "args self' = args self" "train_loader self' = train_loader self"
    "test_loader self' = test_loader self" "training (model self') = training (model self)"
    "steps (optimizer self') = Suc (steps (optimizer self))"
    "group_lr (optimizer self') = group_lr (optimizer self)"
  using assms
  by (auto simp: train_batch_def Adam_step_def split: prod.splits)

lemma train_loop_Cons:
  assumes "shape_ok fw" "length data = length target"
    "train_batch fw self r data target = (self', r', loss)"
  shows "train_loop fw epoch i ((data, target) # rest) (self, r, out) =
     (if log_interval (args self) = 0 then Inl ZeroDivisionError
      else if int i mod log_interval (args self) = 0
      then (if dry_run (args self)
            then Inr (self', r', out @
                    [Wandb_log ''training_loss'' loss,
                     Print_train epoch
                       (progress i (length data) (length (dataset (train_loader self)))
                          (DataLoader_len (train_loader self))) loss])
            else train_loop fw epoch (Suc i) rest (self', r', out @
                    [Wandb_log ''training_loss'' loss,
                     Print_train epoch
                       (progress i (length data) (length (dataset (train_loader self)))
                          (DataLoader_len (train_loader self))) loss]))
      else train_loop fw epoch (Suc i) rest (self', r', out))"
proof -
  obtain outp r1 where
    f: "forward fw (parameters (model self)) (training (model self)) r data = (outp, r1)"
    by (cases "forward fw (parameters (model self)) (training (model self)) r data")
  from assms(1) have "length (fst (forward fw (parameters (model self)) (training (model self)) r data)) =
      length data"
    unfolding shape_ok_def by blast
  with f assms(2) have "length outp = length target" by simp
  then have n: "nll_loss fw Mean outp target =
      Inr (reduce fw Mean (map2 (nll fw) outp target))"
    by (simp add: nll_loss_def)
  from assms(3) f n show ?thesis
    by (auto simp: train_batch_def Let_def split: prod.splits)
qed

lemma length_4: "length xs = 4 \<Longrightarrow> \<exists>a b c d. xs = [a, b, c, d]"
  by (auto simp: eval_nat_numeral length_Suc_conv)

lemma train_loop_Nil: "train_loop fw epoch i [] st = Inr st"
  by (cases st) simp

lemma progress_0: "progress 0 (Suc (Suc 0)) 4 2 = ''0/4 (0%)''"
  by code_simp

lemma progress_1: "progress (Suc 0) (Suc (Suc 0)) 4 2 = ''2/4 (50%)''"
  by code_simp

lemma small_train_run:
  "train toy small_train 1 2 =
     Inr (small_train\<lparr>model := \<lparr>parameters = - (1 / 250), training = True\<rparr>,
            optimizer := \<lparr>group_lr = 2 / 1000, moments = (), steps = 2\<rparr>\<rparr>, 4,
          [Wandb_log ''training_loss'' 0, Print_train 1 ''0/4 (0%)'' 0,
           Wandb_log ''training_loss'' (1 / 2), Print_train 1 ''2/4 (50%)'' (1 / 2)])"
  by code_simp

lemma dry_train_run:
  "train toy dry_train 1 2 =
     Inr (dry_train\<lparr>model := \<lparr>parameters = - (1 / 500), training = True\<rparr>,
            optimizer := \<lparr>group_lr = 2 / 1000, moments = (), steps = 1\<rparr>\<rparr>, 3,
          [Wandb_log ''training_loss'' 0, Print_train 1 ''0/4 (0%)'' 0])"
  by code_simp

text \<open>
  Claim C4. In a dry run (with a log interval other than 0, a training dataset that is
  not empty, a framework that returns one output row per input and a shuffling loader
  that visits every example once) one call of the training epoch returns after the first
  batch: it emits exactly one status line, the step counter of the optimiser has advanced
  by exactly one, and the result is the one of the loop run on the first batch alone,
  whatever batches follow.
\<close>

theorem train_dry_run:
  assumes "dry_run (args self)" "log_interval (args self) \<noteq> 0"
    "dataset (train_loader self) \<noteq> []" "0 < loader_batch_size (train_loader self)"
    "randperm_ok fw" "shape_ok fw"
  shows "\<exists>self' r' loss field.
           train fw self epoch r =
             Inr (self', r', [Wandb_log ''training_loss'' loss, Print_train epoch field loss]) \<and>
           steps (optimizer self') = Suc (steps (optimizer self)) \<and>
           train fw self epoch r =
             train_loop fw epoch 0 (take 1 (fst (DataLoader_iter fw (train_loader self) r)))
               (self\<lparr>model := (model self)\<lparr>training := True\<rparr>\<rparr>,
                snd (DataLoader_iter fw (train_loader self) r), [])"
proof -
  let ?dl = "train_loader self"
  let ?self = "self\<lparr>model := (model self)\<lparr>training := True\<rparr>\<rparr>"
  let ?n = "nat (loader_batch_size ?dl)"
  let ?v = "visited fw ?dl r"
  obtain batches r1 where it: "DataLoader_iter fw ?dl r = (batches, r1)"
    by (cases "DataLoader_iter fw ?dl r")
  from assms(3) length_visited [OF assms(5), of ?dl r] have v: "?v \<noteq> []" by auto
  with assms(4) have "chunks ?n ?v = take ?n ?v # chunks ?n (drop ?n ?v)"
    by (simp add: chunks_nonempty)
  with DataLoader_iter_visited [of fw ?dl r] it
  obtain rest where b: "batches = (map fst (take ?n ?v), map snd (take ?n ?v)) # rest"
    by simp
  obtain self' r' loss where
    tb: "train_batch fw ?self r1 (map fst (take ?n ?v)) (map snd (take ?n ?v)) = (self', r', loss)"
    by (cases "train_batch fw ?self r1 (map fst (take ?n ?v)) (map snd (take ?n ?v))")
  have len: "length (map fst (take ?n ?v)) = length (map snd (take ?n ?v))" by simp
  from assms(1,2) have 1: "train fw self epoch r =
      Inr (self', r', [Wandb_log ''training_loss'' loss,
         Print_train epoch (progress 0 (length (map fst (take ?n ?v)))
            (length (dataset ?dl)) (DataLoader_len ?dl)) loss])"
    by (simp add: train_def it b train_loop_Cons [OF assms(6) len tb] del: train_loop.simps)
  from assms(1,2) have 2: "train_loop fw epoch 0 (take 1 batches) (?self, r1, []) =
      Inr (self', r', [Wandb_log ''training_loss'' loss,
         Print_train epoch (progress 0 (length (map fst (take ?n ?v)))
            (length (dataset ?dl)) (DataLoader_len ?dl)) loss])"
    by (simp add: b train_loop_Cons [OF assms(6) len tb] del: train_loop.simps)
  from train_batch_frame(5) [OF tb] have 3: "steps (optimizer self') = Suc (steps (optimizer self))"
    by simp
  from 1 2 3 it show ?thesis by simp
qed

theorem train_dry_run_witness:
  "dry_run (args dry_train) \<and> log_interval (args dry_train) \<noteq> 0 \<and>
   dataset (train_loader dry_train) \<noteq> [] \<and> 0 < loader_batch_size (train_loader dry_train) \<and>
   randperm_ok toy \<and> shape_ok toy \<and>
   train toy dry_train 1 2 =
     Inr (dry_train\<lparr>model := \<lparr>parameters = - (1 / 500), training = True\<rparr>,
            optimizer := \<lparr>group_lr = 2 / 1000, moments = (), steps = 1\<rparr>\<rparr>, 3,
          [Wandb_log ''training_loss'' 0, Print_train 1 ''0/4 (0%)'' 0]) \<and>
   steps (optimizer dry_train) = 0"
  using train_dry_run [where self = dry_train and fw = toy and epoch = 1 and r = 2]
    toy_randperm_ok toy_shape_ok dry_train_run
  by (simp add: dry_train_def small_train_def small_env_def small_args_def)

text \<open>
  Claim C2, as the code has it. With batches of 2, a log interval of 1 and 4 training
  examples, one call of the training epoch emits exactly two status lines, one per batch;
  their progress fields are \<open>0/4 (0%)\<close> and \<open>2/4 (50%)\<close>: a status line counts the
  examples of the batches before its own (\<open>batch_idx * len(data)\<close>, with \<open>batch_idx\<close>
  counted from 0), not those processed so far.
\<close>

theorem train_progress:
  assumes "loader_batch_size (train_loader self) = 2" "length (dataset (train_loader self)) = 4"
    "log_interval (args self) = 1" "\<not> dry_run (args self)" "randperm_ok fw" "shape_ok fw"
  shows "\<exists>self' r' loss0 loss1.
           train fw self epoch r =
             Inr (self', r',
                  [Wandb_log ''training_loss'' loss0, Print_train epoch ''0/4 (0%)'' loss0,
                   Wandb_log ''training_loss'' loss1, Print_train epoch ''2/4 (50%)'' loss1])"
proof -
  let ?dl = "train_loader self"
  let ?self = "self\<lparr>model := (model self)\<lparr>training := True\<rparr>\<rparr>"
  obtain batches r1 where it: "DataLoader_iter fw ?dl r = (batches, r1)"
    by (cases "DataLoader_iter fw ?dl r")
  from assms(2) length_visited [OF assms(5), of ?dl r] have "length (visited fw ?dl r) = 4"
    by simp
  then obtain a b c d where v: "visited fw ?dl r = [a, b, c, d]"
    using length_4 by blast
  have ch: "chunks 2 [a, b, c, d] = [[a, b], [c, d]]"
    by (simp add: chunks.simps)
  from DataLoader_iter_visited [of fw ?dl r] it v ch assms(1)
  have b: "batches = [([fst a, fst b], [snd a, snd b]), ([fst c, fst d], [snd c, snd d])]"
    by simp
  have len: "DataLoader_len ?dl = 2"
    by (simp add: DataLoader_len_def assms(1,2))
  obtain self1 r2 loss0 where
    tb1: "train_batch fw ?self r1 [fst a, fst b] [snd a, snd b] = (self1, r2, loss0)"
    by (cases "train_batch fw ?self r1 [fst a, fst b] [snd a, snd b]")
  obtain self2 r3 loss1 where
    tb2: "train_batch fw self1 r2 [fst c, fst d] [snd c, snd d] = (self2, r3, loss1)"
    by (cases "train_batch fw self1 r2 [fst c, fst d] [snd c, snd d]")
  note fr = train_batch_frame(1,2) [OF tb1]
  have "train fw self epoch r =
      Inr (self2, r3,
           [Wandb_log ''training_loss'' loss0, Print_train epoch ''0/4 (0%)'' loss0,
            Wandb_log ''training_loss'' loss1, Print_train epoch ''2/4 (50%)'' loss1])"
    using assms(2,3,4) fr
    by (simp add: train_def it b len progress_0 progress_1 train_loop_Nil
        train_loop_Cons [OF assms(6) _ tb1] train_loop_Cons [OF assms(6) _ tb2]
        del: train_loop.simps)
  then show ?thesis by blast
qed

theorem train_progress_witness:
  "loader_batch_size (train_loader small_train) = 2 \<and>
   length (dataset (train_loader small_train)) = 4 \<and>
   log_interval (args small_train) = 1 \<and> \<not> dry_run (args small_train) \<and>
   randperm_ok toy \<and> shape_ok toy \<and>
   progress_fields (train_output toy small_train 1 2) = [''0/4 (0%)'', ''2/4 (50%)'']"
  using train_progress [where self = small_train and fw = toy and epoch = 1 and r = 2]
    toy_randperm_ok toy_shape_ok
  by (auto simp: small_train_def small_env_def small_args_def train_output_def)

text \<open>
  Claim C2 as stated fails: on the small run the progress fields are not \<open>2/4 (50%)\<close>
  and \<open>4/4 (100%)\<close>.
\<close>

theorem train_progress_counterexample:
  "progress_fields (train_output toy small_train 1 2) \<noteq> [''2/4 (50%)'', ''4/4 (100%)'']"
  by (simp add: train_output_def small_train_run)

subsection \<open>The search loop\<close>

lemma objective_loop_append:
  "objective_loop fw (xs @ ys) locals =
     (case objective_loop fw xs locals of
        Inl err \<Rightarrow> Inl err
      | Inr locals' \<Rightarrow> objective_loop fw ys locals')"
proof (induction xs arbitrary: locals)
  case Nil
  then show ?case by simp
next
  case (Cons x xs)
  obtain t opt sch a r out where l: "locals = (t, opt, sch, a, r, out)"
    by (cases locals)
  show ?case
    by (simp add: l Cons.IH split: sum.splits prod.splits)
qed

lemma objective_loop_single:
  "objective_loop fw [i] locals =
     (case spec_iteration fw i locals of
        Inl err \<Rightarrow> Inl err
      | Inr (acc, locals') \<Rightarrow> Inr locals')"
proof -
  obtain t opt sch a r out where l: "locals = (t, opt, sch, a, r, out)"
    by (cases locals)
  show ?thesis
    by (simp add: l spec_iteration_def split: sum.splits prod.splits)
qed

lemma objective_loop_spec: "objective_loop fw [0..<n] locals = spec_iterations fw n locals"
proof (induction n)
  case 0
  then show ?case by simp
next
  case (Suc n)
  then show ?case
    by (simp add: objective_loop_append objective_loop_single split: sum.splits)
qed

lemma spec_iteration_accuracy:
  assumes "spec_iteration fw i locals = Inr (acc, (t, opt, sch, accuracy, r, out))"
  shows "accuracy = Some acc"
  using assms
  by (auto simp: spec_iteration_def split: prod.splits sum.splits)

lemma two_epochs_run:
  "objective toy small_env (const_trial (1 / 10) 2) 5 =
     Inr (3 / 5, 6,
      [Wandb_init (2 / 1000) 1, Wandb_log ''training_loss'' 0,
       Print_train 0 ''0/4 (0%)'' 0, Wandb_log ''training_loss'' (1 / 2),
       Print_train 0 ''2/4 (50%)'' (1 / 2), Wandb_log ''test_loss'' (2 / 5),
       Print_test (2 / 5) 3 5 ''60'', Wandb_log ''training_loss'' 0,
       Print_train 1 ''0/4 (0%)'' 0, Wandb_log ''training_loss'' (1 / 2),
       Print_train 1 ''2/4 (50%)'' (1 / 2), Wandb_log ''test_loss'' (2 / 5),
       Print_test (2 / 5) 3 5 ''60'',
       Torch_save ''mnist_cnn.pt'' (- (1 / 125))])"
  by code_simp

lemma objective_is_spec:
  assumes "1 \<le> suggest_int tr ''epochs'' 1 1"
  shows "objective fw e tr r = objective_spec fw e tr r"
proof (cases "objective_setup fw e tr r")
  case (Inl err)
  then show ?thesis by (simp add: objective_def objective_spec_def)
next
  case (Inr res)
  obtain locals n where res: "res = (locals, n)" by (cases res)
  with Inr have "n = suggest_int tr ''epochs'' 1 1"
    by (auto simp: objective_setup_def Let_def split: sum.splits prod.splits)
  with assms obtain m where m: "nat n = Suc m" by (cases "nat n") auto
  have loop: "objective_loop fw [0..<nat n] locals =
      (case spec_iterations fw m locals of
         Inl err \<Rightarrow> Inl err
       | Inr locals' \<Rightarrow>
           (case spec_iteration fw m locals' of
              Inl err \<Rightarrow> Inl err
            | Inr (acc, locals'') \<Rightarrow> Inr locals''))"
    unfolding m by (simp only: objective_loop_spec spec_iterations.simps)
  from m have nm: "nat n - 1 = m" by simp
  show ?thesis
    unfolding objective_def objective_spec_def Inr res sum.case prod.case loop nm
    by (auto simp: Let_def dest: spec_iteration_accuracy
        split: sum.splits prod.splits option.splits)
qed

lemma StepLR_step_1:
  assumes "step_size sch = 1"
  shows "StepLR_step sch opt =
     (sch\<lparr>last_epoch := Suc (last_epoch sch)\<rparr>, opt\<lparr>group_lr := group_lr opt * sched_gamma sch\<rparr>)"
  using assms by (simp add: StepLR_step_def Let_def)

lemma spec_iteration_schedule:
  assumes "spec_iteration fw i (t, opt, sch, a, r, out) = Inr (acc, (t', opt', sch', a', r', out'))"
    "step_size sch = 1"
  shows "sch' = sch\<lparr>last_epoch := Suc (last_epoch sch)\<rparr>"
    "opt' = opt\<lparr>group_lr := group_lr opt * sched_gamma sch\<rparr>"
  using assms
  by (auto simp: spec_iteration_def StepLR_step_1 split: sum.splits prod.splits)

lemma spec_iterations_schedule:
  assumes "spec_iterations fw k (t, opt, sch, a, r, out) = Inr (t', opt', sch', a', r', out')"
    "step_size sch = 1"
  shows "sch' = sch\<lparr>last_epoch := last_epoch sch + k\<rparr> \<and>
         opt' = opt\<lparr>group_lr := group_lr opt * sched_gamma sch ^ k\<rparr>"
  using assms(1)
proof (induction k arbitrary: t' opt' sch' a' r' out')
  case 0
  then show ?case by simp
next
  case (Suc k)
  from Suc.prems obtain locals1 acc where
    1: "spec_iterations fw k (t, opt, sch, a, r, out) = Inr locals1" and
    2: "spec_iteration fw k locals1 = Inr (acc, (t', opt', sch', a', r', out'))"
    by (auto split: sum.splits prod.splits)
  obtain t1 opt1 sch1 a1 r1 out1 where l: "locals1 = (t1, opt1, sch1, a1, r1, out1)"
    by (cases locals1)
  from Suc.IH [OF 1 [unfolded l]] have
    ih: "sch1 = sch\<lparr>last_epoch := last_epoch sch + k\<rparr>"
        "opt1 = opt\<lparr>group_lr := group_lr opt * sched_gamma sch ^ k\<rparr>"
    by simp_all
  from ih(1) assms(2) have s1: "step_size sch1 = 1" by simp
  from spec_iteration_schedule [OF 2 [unfolded l] s1] ih show ?case
    by (simp add: mult.assoc)
qed

lemma objective_locals_spec: "objective_locals fw e tr r = spec_locals fw e tr r"
  by (simp add: objective_locals_def spec_locals_def objective_loop_spec
      split: sum.splits prod.splits)

lemma Train_init_args: "Train_init fw e r = Inr (t, r1, out) \<Longrightarrow> args t = argv e"
  by (auto simp: Train_init_def Let_def split: sum.splits prod.splits if_splits)

lemma objective_setup_schedule:
  assumes "objective_setup fw e tr r = Inr ((t, opt, sch, a, r1, out), n)"
  shows "n = suggest_int tr ''epochs'' 1 1"
    "group_lr opt = suggest_float tr ''lr'' (1 / 100000) (1 / 10) True"
    "sch = \<lparr>step_size = 1, sched_gamma = gamma (argv e), last_epoch = 0\<rparr>" "a = None"
  using assms
  by (auto simp: objective_setup_def Adam_def StepLR_def Let_def
      dest: Train_init_args split: sum.splits prod.splits if_splits)

lemma objective_locals_schedule:
  assumes "objective_locals fw e tr r = Inr (t, opt, sch, a, r', out)"
  shows "last_epoch sch = nat (suggest_int tr ''epochs'' 1 1) \<and>
         group_lr opt =
           suggest_float tr ''lr'' (1 / 100000) (1 / 10) True *
             gamma (argv e) ^ nat (suggest_int tr ''epochs'' 1 1)"
proof -
  from assms obtain locals0 n where
    0: "objective_setup fw e tr r = Inr (locals0, n)" and
    1: "spec_iterations fw (nat n) locals0 = Inr (t, opt, sch, a, r', out)"
    by (auto simp: objective_locals_def objective_loop_spec split: sum.splits prod.splits)
  obtain t0 opt0 sch0 a0 r0 out0 where l: "locals0 = (t0, opt0, sch0, a0, r0, out0)"
    by (cases locals0)
  note s = objective_setup_schedule [OF 0 [unfolded l]]
  from s(3) have "step_size sch0 = 1" by simp
  from spec_iterations_schedule [OF 1 [unfolded l] this] s show ?thesis
    by simp
qed

lemma objective_of_objective_locals:
  "objective fw e tr r =
     (case objective_locals fw e tr r of
        Inl err \<Rightarrow> Inl err
      | Inr (t, opt, sch, accuracy, r', out) \<Rightarrow>
          (case accuracy of
             None \<Rightarrow> Inl UnboundLocalError
           | Some acc \<Rightarrow>
               Inr (acc, r',
                    if save_model (args t)
                    then out @ [Torch_save ''mnist_cnn.pt'' (parameters (model t))]
                    else out)))"
  by (auto simp: objective_def objective_locals_def Let_def
      split: sum.splits prod.splits option.splits)

lemma objective_locals_accuracy:
  assumes "1 \<le> suggest_int tr ''epochs'' 1 1"
    "objective_locals fw e tr r = Inr (t, opt, sch, a, r', out)"
  shows "\<exists>acc. a = Some acc"
proof -
  from assms(2) obtain locals0 n where
    0: "objective_setup fw e tr r = Inr (locals0, n)" and
    1: "spec_iterations fw (nat n) locals0 = Inr (t, opt, sch, a, r', out)"
    by (auto simp: objective_locals_def objective_loop_spec split: sum.splits prod.splits)
  obtain t0 opt0 sch0 a0 r0 out0 where l: "locals0 = (t0, opt0, sch0, a0, r0, out0)"
    by (cases locals0)
  from objective_setup_schedule(1) [OF 0 [unfolded l]] assms(1)
  obtain m where m: "nat n = Suc m" by (cases "nat n") auto
  from 1 [unfolded m] obtain locals1 acc where
    "spec_iteration fw m locals1 = Inr (acc, (t, opt, sch, a, r', out))"
    by (auto split: sum.splits prod.splits)
  from spec_iteration_accuracy [OF this] show ?thesis by blast
qed

lemma two_epochs_locals:
  "objective_locals toy small_env (const_trial (1 / 10) 2) 5 =
     Inr (small_train\<lparr>model := \<lparr>parameters = - (1 / 125), training = False\<rparr>,
            optimizer := \<lparr>group_lr = 2 / 1000, moments = (), steps = 4\<rparr>\<rparr>,
          \<lparr>group_lr = 49 / 1000, moments = (), steps = 0\<rparr>,
          \<lparr>step_size = 1, sched_gamma = 7 / 10, last_epoch = 2\<rparr>, Some (3 / 5), 6,
          [Wandb_init (2 / 1000) 1, Wandb_log ''training_loss'' 0,
           Print_train 0 ''0/4 (0%)'' 0, Wandb_log ''training_loss'' (1 / 2),
           Print_train 0 ''2/4 (50%)'' (1 / 2), Wandb_log ''test_loss'' (2 / 5),
           Print_test (2 / 5) 3 5 ''60'', Wandb_log ''training_loss'' 0,
           Print_train 1 ''0/4 (0%)'' 0, Wandb_log ''training_loss'' (1 / 2),
           Print_train 1 ''2/4 (50%)'' (1 / 2), Wandb_log ''test_loss'' (2 / 5),
           Print_test (2 / 5) 3 5 ''60''])"
  by code_simp

text \<open>
  Claim C6. A trial whose sampled epoch count is \<open>n \<ge> 1\<close> does what the specification
  says. After the setup it runs \<open>n\<close> iterations, numbered from 0, each a training epoch,
  then an evaluation, then one advance of the decay schedule: the result of \<open>objective\<close>
  is that of \<open>objective_spec\<close>, and the local variables when the loop is left, the local
  optimiser and schedule among them, are those of \<open>spec_locals\<close>. When the loop is left the
  schedule has been advanced exactly \<open>n\<close> times (its counter is \<open>n\<close>, and the learning
  rate of its optimiser is the sampled one times the \<open>n\<close>-th power of the decay factor),
  and the value returned is the accuracy of the last evaluation, which the variable
  \<open>accuracy\<close> holds. An exception of any step is the exception of the trial.
\<close>

theorem objective_runs_epochs:
  assumes "1 \<le> suggest_int tr ''epochs'' 1 1"
  shows "objective fw e tr r = objective_spec fw e tr r \<and>
         objective_locals fw e tr r = spec_locals fw e tr r \<and>
         (\<forall>t opt sch accuracy r' out.
            objective_locals fw e tr r = Inr (t, opt, sch, accuracy, r', out) \<longrightarrow>
              last_epoch sch = nat (suggest_int tr ''epochs'' 1 1) \<and>
              group_lr opt =
                suggest_float tr ''lr'' (1 / 100000) (1 / 10) True *
                  gamma (argv e) ^ nat (suggest_int tr ''epochs'' 1 1) \<and>
              (\<exists>acc out'. accuracy = Some acc \<and> objective fw e tr r = Inr (acc, r', out')))"
proof (intro conjI allI impI)
  show "objective fw e tr r = objective_spec fw e tr r"
    using assms by (rule objective_is_spec)
  show "objective_locals fw e tr r = spec_locals fw e tr r"
    by (rule objective_locals_spec)
next
  fix t opt sch accuracy r' out
  assume l: "objective_locals fw e tr r = Inr (t, opt, sch, accuracy, r', out)"
  from objective_locals_schedule [OF l]
  show "last_epoch sch = nat (suggest_int tr ''epochs'' 1 1)"
    and "group_lr opt =
           suggest_float tr ''lr'' (1 / 100000) (1 / 10) True *
             gamma (argv e) ^ nat (suggest_int tr ''epochs'' 1 1)"
    by simp_all
  from objective_locals_accuracy [OF assms l] obtain acc where "accuracy = Some acc" by blast
  with l show "\<exists>acc out'. accuracy = Some acc \<and> objective fw e tr r = Inr (acc, r', out')"
    by (simp add: objective_of_objective_locals)
qed

theorem objective_runs_epochs_witness:
  "1 \<le> suggest_int (const_trial (1 / 10) 2) ''epochs'' 1 1 \<and>
   objective_spec toy small_env (const_trial (1 / 10) 2) 5 =
     Inr (3 / 5, 6,
      [Wandb_init (2 / 1000) 1, Wandb_log ''training_loss'' 0,
       Print_train 0 ''0/4 (0%)'' 0, Wandb_log ''training_loss'' (1 / 2),
       Print_train 0 ''2/4 (50%)'' (1 / 2), Wandb_log ''test_loss'' (2 / 5),
       Print_test (2 / 5) 3 5 ''60'', Wandb_log ''training_loss'' 0,
       Print_train 1 ''0/4 (0%)'' 0, Wandb_log ''training_loss'' (1 / 2),
       Print_train 1 ''2/4 (50%)'' (1 / 2), Wandb_log ''test_loss'' (2 / 5),
       Print_test (2 / 5) 3 5 ''60'',
       Torch_save ''mnist_cnn.pt'' (- (1 / 125))]) \<and>
   spec_locals toy small_env (const_trial (1 / 10) 2) 5 =
     Inr (small_train\<lparr>model := \<lparr>parameters = - (1 / 125), training = False\<rparr>,
            optimizer := \<lparr>group_lr = 2 / 1000, moments = (), steps = 4\<rparr>\<rparr>,
          \<lparr>group_lr = 49 / 1000, moments = (), steps = 0\<rparr>,
          \<lparr>step_size = 1, sched_gamma = 7 / 10, last_epoch = 2\<rparr>, Some (3 / 5), 6,
          [Wandb_init (2 / 1000) 1, Wandb_log ''training_loss'' 0,
           Print_train 0 ''0/4 (0%)'' 0, Wandb_log ''training_loss'' (1 / 2),
           Print_train 0 ''2/4 (50%)'' (1 / 2), Wandb_log ''test_loss'' (2 / 5),
           Print_test (2 / 5) 3 5 ''60'', Wandb_log ''training_loss'' 0,
           Print_train 1 ''0/4 (0%)'' 0, Wandb_log ''training_loss'' (1 / 2),
           Print_train 1 ''2/4 (50%)'' (1 / 2), Wandb_log ''test_loss'' (2 / 5),
           Print_test (2 / 5) 3 5 ''60'']) \<and>
   last_epoch \<lparr>step_size = 1, sched_gamma = 7 / 10, last_epoch = 2\<rparr> =
     nat (suggest_int (const_trial (1 / 10) 2) ''epochs'' 1 1) \<and>
   group_lr \<lparr>group_lr = 49 / 1000, moments = (), steps = 0\<rparr> =
     suggest_float (const_trial (1 / 10) 2) ''lr'' (1 / 100000) (1 / 10) True *
       gamma (argv small_env) ^ nat (suggest_int (const_trial (1 / 10) 2) ''epochs'' 1 1)"
proof -
  have h: "1 \<le> suggest_int (const_trial (1 / 10) 2) ''epochs'' 1 1"
    by (simp add: const_trial_def)
  note inst = objective_runs_epochs [OF h, of toy small_env 5]
  from inst have 1: "objective toy small_env (const_trial (1 / 10) 2) 5 =
      objective_spec toy small_env (const_trial (1 / 10) 2) 5" by blast
  from inst have 2: "objective_locals toy small_env (const_trial (1 / 10) 2) 5 =
      spec_locals toy small_env (const_trial (1 / 10) 2) 5" by blast
  from inst two_epochs_locals have 3:
    "last_epoch \<lparr>step_size = 1, sched_gamma = 7 / 10, last_epoch = 2\<rparr> =
       nat (suggest_int (const_trial (1 / 10) 2) ''epochs'' 1 1) \<and>
     group_lr \<lparr>group_lr = 49 / 1000, moments = (), steps = 0::nat\<rparr> =
       suggest_float (const_trial (1 / 10) 2) ''lr'' (1 / 100000) (1 / 10) True *
         gamma (argv small_env) ^ nat (suggest_int (const_trial (1 / 10) 2) ''epochs'' 1 1)"
    by blast
  from h 1 2 3 two_epochs_run two_epochs_locals show ?thesis
    by (simp only: simp_thms)
qed

lemma Train_init_seeded: "Train_init fw e r1 = Train_init fw e r2"
  by (simp add: Train_init_def)

lemma objective_loop_locals:
  "map_sum id (\<lambda>(t, opt, sch, rest). (t, rest)) (objective_loop fw ns (t, opt1, sch1, a, r, out)) =
   map_sum id (\<lambda>(t, opt, sch, rest). (t, rest)) (objective_loop fw ns (t, opt2, sch2, a, r, out))"
proof (induction ns arbitrary: t opt1 sch1 opt2 sch2 a r out)
  case Nil
  then show ?case by simp
next
  case (Cons n ns)
  show ?case
  proof (cases "train fw t (int n) r")
    case (Inl err)
    then show ?thesis by simp
  next
    case (Inr res)
    obtain t1 r1 out1 where res: "res = (t1, r1, out1)" by (cases res)
    show ?thesis
    proof (cases "test fw t1 r1")
      case (Inl err)
      with Inr res show ?thesis by simp
    next
      case inr2: (Inr res2)
      obtain acc t2 r2 out2 where res2: "res2 = (acc, t2, r2, out2)" by (cases res2)
      from Inr res inr2 res2
        Cons.IH [of t2 "snd (StepLR_step sch1 opt1)" "fst (StepLR_step sch1 opt1)" "Some acc" r2
          "out @ out1 @ out2" "snd (StepLR_step sch2 opt2)" "fst (StepLR_step sch2 opt2)"]
      show ?thesis by (simp add: case_prod_beta)
    qed
  qed
qed

lemma objective_of_locals:
  "objective fw e tr r =
     (case objective_setup fw e tr r of
        Inl err \<Rightarrow> Inl err
      | Inr (locals, n) \<Rightarrow>
     (case map_sum id (\<lambda>(t, opt, sch, rest). (t, rest)) (objective_loop fw [0..<nat n] locals) of
        Inl err \<Rightarrow> Inl err
      | Inr (t, accuracy, r', out) \<Rightarrow>
          (case accuracy of
             None \<Rightarrow> Inl UnboundLocalError
           | Some acc \<Rightarrow>
               Inr (acc, r',
                    if save_model (args t)
                    then out @ [Torch_save ''mnist_cnn.pt'' (parameters (model t))]
                    else out))))"
  by (auto simp: objective_def Let_def split: sum.splits prod.splits option.splits)

lemma trial_ok_samples:
  assumes "trial_ok tr"
  shows "suggest_int tr ''epochs'' 1 1 = 1" "0 \<le> suggest_float tr ''lr'' (1 / 100000) (1 / 10) True"
proof -
  from assms have "1 \<le> suggest_int tr ''epochs'' 1 1 \<and> suggest_int tr ''epochs'' 1 1 \<le> 1"
    unfolding trial_ok_def by blast
  then show "suggest_int tr ''epochs'' 1 1 = 1" by simp
  from assms have "(1 / 100000 :: real) \<le> 1 / 10 \<longrightarrow>
      1 / 100000 \<le> suggest_float tr ''lr'' (1 / 100000) (1 / 10) True"
    unfolding trial_ok_def by blast
  then show "0 \<le> suggest_float tr ''lr'' (1 / 100000) (1 / 10) True" by simp
qed

lemma objective_setup_trial:
  assumes "trial_ok tr"
  shows "objective_setup fw e tr r =
     (case Train_init fw e r of
        Inl err \<Rightarrow> Inl err
      | Inr (t, r1, out) \<Rightarrow>
          Inr ((t, \<lparr>group_lr = suggest_float tr ''lr'' (1 / 100000) (1 / 10) True,
                    moments = adam_init fw (parameters (model t)), steps = 0\<rparr>,
                StepLR 1 (gamma (args t)), None, r1, out), 1))"
  using trial_ok_samples [OF assms]
  by (simp add: objective_setup_def Adam_def Let_def split: sum.splits prod.splits)

lemma lo_trial_ok: "trial_ok lo_trial"
  by (simp add: trial_ok_def lo_trial_def)

lemma hi_trial_ok: "trial_ok hi_trial"
  by (simp add: trial_ok_def hi_trial_def)

lemma hi_trial_run:
  "objective toy small_env hi_trial 5 =
     Inr (3 / 5, 4,
      [Wandb_init (2 / 1000) 1, Wandb_log ''training_loss'' 0,
       Print_train 0 ''0/4 (0%)'' 0, Wandb_log ''training_loss'' (1 / 2),
       Print_train 0 ''2/4 (50%)'' (1 / 2), Wandb_log ''test_loss'' (2 / 5),
       Print_test (2 / 5) 3 5 ''60'',
       Torch_save ''mnist_cnn.pt'' (- (1 / 250))])"
  by code_simp

text \<open>
  Claim C9. Any two trials of a search run return the same result: each builds the
  \<open>Train\<close> object anew, which seeds the random generator with the seed of the settings,
  the epoch count is always 1, and the sampled learning rate only goes into the local
  optimiser, whose step is never taken. Whatever the two samplers return within their
  ranges and whatever the state of the random generator before each trial, the accuracy
  (and the output, and the exception if there is one) is the same.
\<close>

theorem trials_agree:
  assumes "trial_ok tr1" "trial_ok tr2"
  shows "objective fw e tr1 r1 = objective fw e tr2 r2"
proof (cases "Train_init fw e r1")
  case (Inl err)
  with Train_init_seeded [of fw e r1 r2] have 2: "Train_init fw e r2 = Inl err" by simp
  show ?thesis
    unfolding objective_of_locals objective_setup_trial [OF assms(1)]
      objective_setup_trial [OF assms(2)] Inl 2 sum.case
    by (rule refl)
next
  case (Inr res)
  obtain t r0 out where res: "res = (t, r0, out)" by (cases res)
  from Inr res Train_init_seeded [of fw e r1 r2]
  have 2: "Train_init fw e r2 = Inr (t, r0, out)" by simp
  show ?thesis
    unfolding objective_of_locals objective_setup_trial [OF assms(1)]
      objective_setup_trial [OF assms(2)] Inr res 2 sum.case prod.case
    by (simp only: objective_loop_locals
        [of fw _ t "\<lparr>group_lr = suggest_float tr1 ''lr'' (1 / 100000) (1 / 10) True,
               moments = adam_init fw (parameters (model t)), steps = 0\<rparr>" _ None r0 out
            "\<lparr>group_lr = suggest_float tr2 ''lr'' (1 / 100000) (1 / 10) True,
               moments = adam_init fw (parameters (model t)), steps = 0\<rparr>"
            "StepLR 1 (gamma (args t))"])
qed

theorem trials_agree_witness:
  "trial_ok lo_trial \<and> trial_ok hi_trial \<and>
   suggest_float lo_trial ''lr'' (1 / 100000) (1 / 10) True = 1 / 100000 \<and>
   suggest_float hi_trial ''lr'' (1 / 100000) (1 / 10) True = 1 / 10 \<and>
   objective toy small_env lo_trial 77 =
     Inr (3 / 5, 4,
      [Wandb_init (2 / 1000) 1, Wandb_log ''training_loss'' 0,
       Print_train 0 ''0/4 (0%)'' 0, Wandb_log ''training_loss'' (1 / 2),
       Print_train 0 ''2/4 (50%)'' (1 / 2), Wandb_log ''test_loss'' (2 / 5),
       Print_test (2 / 5) 3 5 ''60'',
       Torch_save ''mnist_cnn.pt'' (- (1 / 250))])"
  using trials_agree [OF lo_trial_ok hi_trial_ok, of toy small_env 77 5]
    hi_trial_run lo_trial_ok hi_trial_ok
  by (simp add: lo_trial_def hi_trial_def)

text \<open>
  Claim C1 fails on the code. \<open>Train.train\<close> steps \<open>self.optimizer\<close>, which the constructor
  built with the learning rate of the settings; the optimiser \<open>objective\<close> builds with the
  sampled learning rate is handed to the local schedule only. On the small run with
  learning rate 0.002 in the settings and a sampled learning rate of 0.1, the parameters
  saved after two steps of gradient 1 from 0 are \<open>- (2 * 0.002)\<close>, not \<open>- (2 * 0.1)\<close>.
\<close>

theorem sampled_lr_unused:
  "objective toy small_env (const_trial (1 / 10) 1) 5 =
     Inr (3 / 5, 4,
      [Wandb_init (2 / 1000) 1, Wandb_log ''training_loss'' 0,
       Print_train 0 ''0/4 (0%)'' 0, Wandb_log ''training_loss'' (1 / 2),
       Print_train 0 ''2/4 (50%)'' (1 / 2), Wandb_log ''test_loss'' (2 / 5),
       Print_test (2 / 5) 3 5 ''60'',
       Torch_save ''mnist_cnn.pt'' (- (2 * (2 / 1000)))])"
  by code_simp



end
